theory Spec2Isabelle
  imports Complex_Main "HOL-Library.Sublist"
begin

section \<open>Quality assessment (domain/models/quality.py)\<close>

text \<open>
  Python floats are modelled as exact reals: every score below is a short arithmetic
  expression over the inputs, and rounding is left out of the model. Optional fields
  (\<open>Optional[float] = None\<close>) are \<open>real option\<close>.
\<close>

datatype QualityGrade = EXTRA_VIRGIN | VIRGIN | LAMPANTE | REFINED | UNKNOWN

text \<open>The \<open>timestamp\<close> field is read by no method; it is carried as an opaque number.\<close>

record QualityMetrics =
  acidity :: "real option"
  peroxide_value :: "real option"
  k232 :: "real option"
  k270 :: "real option"
  delta_k :: "real option"
  flavor_score :: "real option"
  aroma_score :: "real option"
  timestamp :: "nat option"

text \<open>
  \<open>calculate_overall_score\<close>: the list \<open>scores\<close> grows by one \<open>append\<close> per present
  indicator, in the order of the source; \<open>delta_k\<close> is never read.
\<close>

definition calculate_overall_score :: "QualityMetrics \<Rightarrow> real" where
  "calculate_overall_score m =
     (let scores0 = [];
          scores1 = (case acidity m of None \<Rightarrow> scores0
             | Some a \<Rightarrow> if a \<le> 0.8 then scores0 @ [100 - (a / 0.8) * 20]
                        else scores0 @ [max 0 (80 - (a - 0.8) * 50)]);
          scores2 = (case peroxide_value m of None \<Rightarrow> scores1
             | Some p \<Rightarrow> if p \<le> 20 then scores1 @ [100 - (p / 20) * 20]
                        else scores1 @ [max 0 (80 - (p - 20) * 2)]);
          scores3 = (case k232 m of None \<Rightarrow> scores2
             | Some k \<Rightarrow> if k \<le> 2.5 then scores2 @ [100 - (k / 2.5) * 20]
                        else scores2 @ [max 0 (80 - (k - 2.5) * 20)]);
          scores4 = (case k270 m of None \<Rightarrow> scores3
             | Some k \<Rightarrow> if k \<le> 0.22 then scores3 @ [100 - (k / 0.22) * 20]
                        else scores3 @ [max 0 (80 - (k - 0.22) * 200)]);
          scores5 = (case flavor_score m of None \<Rightarrow> scores4 | Some f \<Rightarrow> scores4 @ [f]);
          scores6 = (case aroma_score m of None \<Rightarrow> scores5 | Some r \<Rightarrow> scores5 @ [r])
      in if scores6 \<noteq> [] then sum_list scores6 / real (length scores6) else 0)"

definition determine_quality_grade :: "QualityMetrics \<Rightarrow> QualityGrade" where
  "determine_quality_grade m =
     (let overall_score = calculate_overall_score m
      in if overall_score \<ge> 90 then EXTRA_VIRGIN
         else if overall_score \<ge> 80 then VIRGIN
         else if overall_score \<ge> 60 then LAMPANTE
         else REFINED)"

record QualityThreshold =
  grade :: QualityGrade
  max_acidity :: real
  max_peroxide_value :: real
  max_k232 :: real
  max_k270 :: real
  min_flavor_score :: real
  min_aroma_score :: real

text \<open>
  \<open>check_compliance\<close>: the dictionary \<open>compliance\<close> as a map from key to boolean, one
  update per present field, in the order of the source.
\<close>

definition check_compliance :: "QualityThreshold \<Rightarrow> QualityMetrics \<Rightarrow> (string \<rightharpoonup> bool)" where
  "check_compliance th m =
     (let c0 = Map.empty;
          c1 = (case acidity m of None \<Rightarrow> c0 | Some a \<Rightarrow> c0(''acidity'' \<mapsto> a \<le> max_acidity th));
          c2 = (case peroxide_value m of None \<Rightarrow> c1
                | Some p \<Rightarrow> c1(''peroxide_value'' \<mapsto> p \<le> max_peroxide_value th));
          c3 = (case k232 m of None \<Rightarrow> c2 | Some k \<Rightarrow> c2(''k232'' \<mapsto> k \<le> max_k232 th));
          c4 = (case k270 m of None \<Rightarrow> c3 | Some k \<Rightarrow> c3(''k270'' \<mapsto> k \<le> max_k270 th));
          c5 = (case flavor_score m of None \<Rightarrow> c4
                | Some f \<Rightarrow> c4(''flavor'' \<mapsto> f \<ge> min_flavor_score th));
          c6 = (case aroma_score m of None \<Rightarrow> c5
                | Some r \<Rightarrow> c5(''aroma'' \<mapsto> r \<ge> min_aroma_score th))
      in c6)"

text \<open>The metrics with no field set, as the dataclass defaults give them.\<close>

definition no_metrics :: QualityMetrics where
  "no_metrics = \<lparr>acidity = None, peroxide_value = None, k232 = None, k270 = None,
     delta_k = None, flavor_score = None, aroma_score = None, timestamp = None\<rparr>"

section \<open>Strings\<close>

text \<open>
  Python's \<open>sub in s\<close> on strings: \<open>sub\<close> occurs at some position of \<open>s\<close>.
\<close>

fun contains :: "string \<Rightarrow> string \<Rightarrow> bool" where
  "contains sub [] = (sub = [])"
| "contains sub (c # cs) = (prefix sub (c # cs) \<or> contains sub cs)"

datatype error = ValueError string

text \<open>
  Python's \<open>s.split(sep)\<close>: the text is cut at the non-overlapping occurrences of
  \<open>sep\<close>, found from the left; an empty separator raises. \<open>split_from\<close> scans the rest
  of the text with the part read so far in \<open>cur\<close>.
\<close>

function split_from :: "string \<Rightarrow> string \<Rightarrow> string \<Rightarrow> string list" where
  "split_from sep cur [] = [cur]"
| "split_from sep cur (c # cs) =
     (if sep \<noteq> [] \<and> prefix sep (c # cs)
      then cur # split_from sep [] (drop (length sep) (c # cs))
      else split_from sep (cur @ [c]) cs)"
  by pat_completeness auto
termination
  by (relation "measure (\<lambda>(sep, cur, s). length s)") (auto simp: neq_Nil_conv)

definition split :: "string \<Rightarrow> string \<Rightarrow> error + string list" where
  "split s sep = (if sep = [] then Inl (ValueError ''empty separator'')
                  else Inr (split_from sep [] s))"

text \<open>
  Python's built-in \<open>float(text)\<close> is a parameter \<open>to_float\<close> of the functions that call
  it: \<open>None\<close> is its \<open>ValueError\<close>. The general theorems hold for every \<open>to_float\<close>.
  \<open>float_decimal\<close> is the conversion restricted to plain decimal literals (an optional
  sign, digits, an optional point and digits, at least one digit); where it gives a number,
  \<open>float\<close> gives the same one. It is used on concrete inputs only, all of them either
  such literals or texts that \<open>float\<close> rejects as well.
\<close>

definition digit_value :: "char \<Rightarrow> nat option" where
  "digit_value c = (let n = (of_char c :: nat) in if 48 \<le> n \<and> n \<le> 57 then Some (n - 48) else None)"

fun digits_value :: "nat \<Rightarrow> string \<Rightarrow> nat option" where
  "digits_value acc [] = Some acc"
| "digits_value acc (c # cs) =
     (case digit_value c of None \<Rightarrow> None | Some d \<Rightarrow> digits_value (10 * acc + d) cs)"

definition unsigned_decimal :: "string \<Rightarrow> real option" where
  "unsigned_decimal s =
     (let ip = takeWhile (\<lambda>c. c \<noteq> CHR ''.'') s;
          rest = dropWhile (\<lambda>c. c \<noteq> CHR ''.'') s;
          fp = (case rest of [] \<Rightarrow> [] | _ # r \<Rightarrow> r)
      in if ip = [] \<and> fp = [] then None
         else (case (digits_value 0 ip, digits_value 0 fp) of
                 (Some a, Some b) \<Rightarrow> Some (real a + real b / 10 ^ length fp)
               | _ \<Rightarrow> None))"

definition float_decimal :: "string \<Rightarrow> real option" where
  "float_decimal s =
     (case s of
        [] \<Rightarrow> None
      | c # cs \<Rightarrow> if c = CHR ''-'' then map_option uminus (unsigned_decimal cs)
                  else if c = CHR ''+'' then unsigned_decimal cs
                  else unsigned_decimal s)"

section \<open>Spectral data (domain/models/spectrum.py)\<close>

datatype SpectroscopyType = FLUORESCENCE | ABSORPTION | RAMAN

text \<open>
  The arrays are lists of reals. \<open>measurement_conditions\<close> is never read and always left
  at its default by the loaders; it is kept as an optional association list.
\<close>

record SpectralData =
  wavelengths :: "real list"
  intensities :: "real list"
  spectroscopy_type :: SpectroscopyType
  excitation_wavelength :: "real option"
  emission_wavelength :: "real option"
  measurement_conditions :: "(string \<times> string) list option"

text \<open>\<open>__post_init__\<close>: the two checks, in the order of the source.\<close>

definition post_init :: "SpectralData \<Rightarrow> error + SpectralData" where
  "post_init sd =
     (if length (wavelengths sd) \<noteq> length (intensities sd)
      then Inl (ValueError ''Wavelengths and intensities must have the same length'')
      else if length (wavelengths sd) = 0
      then Inl (ValueError ''Spectral data cannot be empty'')
      else Inr sd)"

text \<open>The dataclass constructor: the fields are stored, then \<open>__post_init__\<close> runs.\<close>

definition new_SpectralData ::
  "real list \<Rightarrow> real list \<Rightarrow> SpectroscopyType \<Rightarrow> real option \<Rightarrow> real option \<Rightarrow>
   (string \<times> string) list option \<Rightarrow> error + SpectralData" where
  "new_SpectralData w i t ex em mc =
     post_init \<lparr>wavelengths = w, intensities = i, spectroscopy_type = t,
       excitation_wavelength = ex, emission_wavelength = em, measurement_conditions = mc\<rparr>"

section \<open>Aging step (domain/models/measurement.py, infrastructure/data_sources/base.py)\<close>

datatype AgingStep = STEP_0 | STEP_1 | STEP_2 | STEP_3 | STEP_4
  | STEP_5 | STEP_6 | STEP_7 | STEP_8 | STEP_9

text \<open>\<open>_extract_aging_step\<close>, on the file name (\<open>file_path.name\<close>).\<close>

definition extract_aging_step :: "string \<Rightarrow> AgingStep" where
  "extract_aging_step filename =
     (if contains ''AS0'' filename then STEP_0
      else if contains ''AS1'' filename then STEP_1
      else if contains ''AS2'' filename then STEP_2
      else if contains ''AS3'' filename then STEP_3
      else if contains ''AS4'' filename then STEP_4
      else if contains ''AS5'' filename then STEP_5
      else if contains ''AS6'' filename then STEP_6
      else if contains ''AS7'' filename then STEP_7
      else if contains ''AS8'' filename then STEP_8
      else if contains ''AS9'' filename then STEP_9
      else STEP_0)"

section \<open>Strategy factory (infrastructure/data_sources/factory.py)\<close>

text \<open>
  A strategy object holds nothing but its class, so it is modelled by the class. The
  class-level registry \<open>_strategies\<close> is a map that \<open>register_strategy\<close> updates; it is
  passed to the functions that read it.
\<close>

datatype Strategy = FluorescenceStrategy | AbsorptionStrategy

definition strategies_initial :: "SpectroscopyType \<rightharpoonup> Strategy" where
  "strategies_initial = [FLUORESCENCE \<mapsto> FluorescenceStrategy, ABSORPTION \<mapsto> AbsorptionStrategy]"

definition create_strategy :: "(SpectroscopyType \<rightharpoonup> Strategy) \<Rightarrow> SpectroscopyType \<Rightarrow> error + Strategy" where
  "create_strategy strategies t =
     (case strategies t of
        None \<Rightarrow> Inl (ValueError ''Unsupported spectroscopy type'')
      | Some strategy_class \<Rightarrow> Inr strategy_class)"

definition create_strategy_from_file :: "(SpectroscopyType \<rightharpoonup> Strategy) \<Rightarrow> string \<Rightarrow> error + Strategy" where
  "create_strategy_from_file strategies file_path =
     (if contains ''Fluorescence'' file_path then create_strategy strategies FLUORESCENCE
      else if contains ''Absorption'' file_path then create_strategy strategies ABSORPTION
      else create_strategy strategies FLUORESCENCE)"

definition register_strategy ::
  "(SpectroscopyType \<rightharpoonup> Strategy) \<Rightarrow> SpectroscopyType \<Rightarrow> Strategy \<Rightarrow> (SpectroscopyType \<rightharpoonup> Strategy)" where
  "register_strategy strategies t strategy_class = strategies(t \<mapsto> strategy_class)"

section \<open>Fluorescence loader (infrastructure/data_sources/fluorescence.py)\<close>

text \<open>
  \<open>_extract_excitation_wavelength\<close>. The \<open>try\<close> block catches the \<open>ValueError\<close> of
  \<open>float\<close>; every path that does not return from inside it ends at the default.
\<close>

definition extract_excitation_wavelength :: "(string \<Rightarrow> real option) \<Rightarrow> string \<Rightarrow> real" where
  "extract_excitation_wavelength to_float column_name =
     (if contains ''EX_'' column_name then
        (case split column_name ''EX_'' of
           Inl e \<Rightarrow> 300
         | Inr parts \<Rightarrow>
             if length parts > 1 then
               (case to_float (parts ! 1) of Some v \<Rightarrow> v | None \<Rightarrow> 300)
             else 300)
      else 300)"

text \<open>
  The table read by pandas: a list of columns, each a header and its cells. A cell is
  missing (\<open>None\<close>, pandas' NaN) or holds a number or, in a column that is not all
  numeric, a text.
\<close>

datatype scalar = Num real | Str string

type_synonym cell = "scalar option"

type_synonym DataFrame = "(string \<times> cell list) list"

text \<open>\<open>astype(float)\<close> on one value and on an array; the first text that does not convert raises.\<close>

fun scalar_to_float :: "(string \<Rightarrow> real option) \<Rightarrow> scalar \<Rightarrow> real option" where
  "scalar_to_float to_float (Num r) = Some r"
| "scalar_to_float to_float (Str s) = to_float s"

fun astype_float :: "(string \<Rightarrow> real option) \<Rightarrow> scalar list \<Rightarrow> error + real list" where
  "astype_float to_float [] = Inr []"
| "astype_float to_float (x # xs) =
     (case scalar_to_float to_float x of
        None \<Rightarrow> Inl (ValueError ''could not convert string to float'')
      | Some r \<Rightarrow> (case astype_float to_float xs of Inl e \<Rightarrow> Inl e | Inr rs \<Rightarrow> Inr (r # rs)))"

text \<open>
  The rows selected by \<open>valid_mask = ~(wavelength_col.isna() | intensity_col.isna())\<close>:
  the pairs of values of the rows where neither cell is missing.
\<close>

definition valid_rows :: "cell list \<Rightarrow> cell list \<Rightarrow> (scalar \<times> scalar) list" where
  "valid_rows wavelength_col intensity_col =
     List.map_filter
       (\<lambda>(w, i). case w of None \<Rightarrow> None
                 | Some a \<Rightarrow> (case i of None \<Rightarrow> None | Some b \<Rightarrow> Some (a, b)))
       (zip wavelength_col intensity_col)"

definition extract_spectrum ::
  "(string \<Rightarrow> real option) \<Rightarrow> DataFrame \<Rightarrow> nat \<Rightarrow> error + (real list \<times> real list)" where
  "extract_spectrum to_float df col_idx =
     (if col_idx + 1 \<ge> length df then Inl (ValueError ''Column index out of bounds'')
      else
        (let wavelength_col = snd (df ! col_idx);
             intensity_col = snd (df ! (col_idx + 1));
             rows = valid_rows wavelength_col intensity_col
         in case astype_float to_float (map fst rows) of
              Inl e \<Rightarrow> Inl e
            | Inr ws \<Rightarrow> (case astype_float to_float (map snd rows) of
                           Inl e \<Rightarrow> Inl e
                         | Inr is \<Rightarrow> Inr (ws, is))))"

text \<open>
  One round of the loop of \<open>load_data\<close> at column \<open>i\<close>: any exception of the extraction or
  of the constructor is caught and the pair is skipped.
\<close>

definition load_pair ::
  "(string \<Rightarrow> real option) \<Rightarrow> DataFrame \<Rightarrow> nat \<Rightarrow> SpectralData list \<Rightarrow> SpectralData list" where
  "load_pair to_float df i spectral_data_list =
     (case extract_spectrum to_float df i of
        Inl e \<Rightarrow> spectral_data_list
      | Inr (ws, is) \<Rightarrow>
          if length ws > 0 then
            (case new_SpectralData ws is FLUORESCENCE
                    (Some (extract_excitation_wavelength to_float (fst (df ! i)))) None None of
               Inl e \<Rightarrow> spectral_data_list
             | Inr spectral_data \<Rightarrow> spectral_data_list @ [spectral_data])
          else spectral_data_list)"

text \<open>\<open>for i in range(0, df.shape[1] - 1, 2)\<close>; the bound can be \<open>-1\<close>, so it is an integer.\<close>

function load_loop ::
  "(string \<Rightarrow> real option) \<Rightarrow> DataFrame \<Rightarrow> nat \<Rightarrow> SpectralData list \<Rightarrow> SpectralData list" where
  "load_loop to_float df i spectral_data_list =
     (if int i < int (length df) - 1
      then load_loop to_float df (i + 2) (load_pair to_float df i spectral_data_list)
      else spectral_data_list)"
  by pat_completeness auto
termination
  by (relation "measure (\<lambda>(to_float, df, i, acc). Suc (length df) - i)") auto

declare load_loop.simps [simp del]

text \<open>
  \<open>load_data\<close>, from the result of \<open>pd.read_csv\<close>: a file that cannot be read gives the
  empty list.
\<close>

definition load_data :: "(string \<Rightarrow> real option) \<Rightarrow> error + DataFrame \<Rightarrow> SpectralData list" where
  "load_data to_float csv =
     (case csv of Inl e \<Rightarrow> [] | Inr df \<Rightarrow> load_loop to_float df 0 [])"

section \<open>The specification's notions\<close>

subsection \<open>Scoring\<close>

text \<open>The straight line through \<open>(x0, y0)\<close> and \<open>(x1, y1)\<close>, at \<open>v\<close>.\<close>

definition interpolate :: "real \<times> real \<Rightarrow> real \<times> real \<Rightarrow> real \<Rightarrow> real" where
  "interpolate p q v = snd p + (snd q - snd p) * (v - fst p) / (fst q - fst p)"

text \<open>
  The piecewise-linear sub-score of a chemical indicator with threshold \<open>t\<close> and rate
  \<open>rate\<close>: from 100 at 0 to 80 at \<open>t\<close>, then falling from 80 at \<open>rate\<close> per unit, not
  below 0.
\<close>

definition piecewise_sub_score :: "real \<Rightarrow> real \<Rightarrow> real \<Rightarrow> real" where
  "piecewise_sub_score t rate v =
     (if v \<le> t then interpolate (0, 100) (t, 80) v else max 0 (80 - rate * (v - t)))"

definition present :: "('a \<Rightarrow> 'b) \<Rightarrow> 'a option \<Rightarrow> 'b list" where
  "present f x = (case x of None \<Rightarrow> [] | Some v \<Rightarrow> [f v])"

definition present_sub_scores :: "QualityMetrics \<Rightarrow> real list" where
  "present_sub_scores m =
     present (piecewise_sub_score 0.8 50) (acidity m)
     @ present (piecewise_sub_score 20 2) (peroxide_value m)
     @ present (piecewise_sub_score 2.5 20) (k232 m)
     @ present (piecewise_sub_score 0.22 200) (k270 m)
     @ present (\<lambda>v. v) (flavor_score m)
     @ present (\<lambda>v. v) (aroma_score m)"

definition arithmetic_mean :: "real list \<Rightarrow> real" where
  "arithmetic_mean xs = (if xs = [] then 0 else sum_list xs / real (length xs))"

definition nonneg_if_present :: "real option \<Rightarrow> bool" where
  "nonneg_if_present x = (case x of None \<Rightarrow> True | Some v \<Rightarrow> 0 \<le> v)"

definition percent_if_present :: "real option \<Rightarrow> bool" where
  "percent_if_present x = (case x of None \<Rightarrow> True | Some v \<Rightarrow> 0 \<le> v \<and> v \<le> 100)"

definition metrics_in_range :: "QualityMetrics \<Rightarrow> bool" where
  "metrics_in_range m \<longleftrightarrow>
     nonneg_if_present (acidity m) \<and> nonneg_if_present (peroxide_value m)
     \<and> nonneg_if_present (k232 m) \<and> nonneg_if_present (k270 m)
     \<and> percent_if_present (flavor_score m) \<and> percent_if_present (aroma_score m)"

subsection \<open>Compliance keys\<close>

definition key_if_present :: "string \<Rightarrow> 'a option \<Rightarrow> string set" where
  "key_if_present k x = (case x of None \<Rightarrow> {} | Some v \<Rightarrow> {k})"

subsection \<open>Markers in headers and file names\<close>

text \<open>The text after the first occurrence of \<open>sep\<close>, when there is one.\<close>

fun after_first :: "string \<Rightarrow> string \<Rightarrow> string option" where
  "after_first sep [] = (if sep = [] then Some [] else None)"
| "after_first sep (c # cs) =
     (if prefix sep (c # cs) then Some (drop (length sep) (c # cs)) else after_first sep cs)"

text \<open>The text before the first occurrence of \<open>sep\<close>; the whole text when there is none.\<close>

fun before_first :: "string \<Rightarrow> string \<Rightarrow> string" where
  "before_first sep [] = []"
| "before_first sep (c # cs) = (if prefix sep (c # cs) then [] else c # before_first sep cs)"

text \<open>The token \<open>AS\<close> followed by the digit \<open>d\<close>, and the aging step numbered \<open>d\<close>.\<close>

definition AS_token :: "nat \<Rightarrow> string" where
  "AS_token d = ''AS'' @ [''0123456789'' ! d]"

definition step_of_digit :: "nat \<Rightarrow> AgingStep" where
  "step_of_digit d =
     [STEP_0, STEP_1, STEP_2, STEP_3, STEP_4, STEP_5, STEP_6, STEP_7, STEP_8, STEP_9] ! d"

subsection \<open>Column pairs\<close>

text \<open>The wavelength columns: the even indices that have a column to their right.\<close>

definition pair_indices :: "DataFrame \<Rightarrow> nat list" where
  "pair_indices df = filter (\<lambda>i. even i \<and> i + 1 < length df) [0..<length df]"

definition pair_rows :: "DataFrame \<Rightarrow> nat \<Rightarrow> (scalar \<times> scalar) list" where
  "pair_rows df i = valid_rows (snd (df ! i)) (snd (df ! (i + 1)))"

text \<open>A pair is valid when a row is left and every value left converts to a float.\<close>

definition pair_valid :: "(string \<Rightarrow> real option) \<Rightarrow> DataFrame \<Rightarrow> nat \<Rightarrow> bool" where
  "pair_valid to_float df i \<longleftrightarrow>
     pair_rows df i \<noteq> []
     \<and> list_all (\<lambda>(a, b). scalar_to_float to_float a \<noteq> None \<and> scalar_to_float to_float b \<noteq> None)
         (pair_rows df i)"

definition pair_record :: "(string \<Rightarrow> real option) \<Rightarrow> DataFrame \<Rightarrow> nat \<Rightarrow> SpectralData" where
  "pair_record to_float df i =
     \<lparr>wavelengths = List.map_filter (scalar_to_float to_float) (map fst (pair_rows df i)),
      intensities = List.map_filter (scalar_to_float to_float) (map snd (pair_rows df i)),
      spectroscopy_type = FLUORESCENCE,
      excitation_wavelength = Some (extract_excitation_wavelength to_float (fst (df ! i))),
      emission_wavelength = None,
      measurement_conditions = None\<rparr>"

section \<open>Concrete inputs\<close>

text \<open>The metrics of the specification's example: four chemical values, nothing else.\<close>

definition spec_example_metrics :: QualityMetrics where
  "spec_example_metrics = no_metrics\<lparr>acidity := Some 0.4, peroxide_value := Some 10,
     k232 := Some 2.0, k270 := Some 0.1\<rparr>"

definition extra_virgin_threshold :: QualityThreshold where
  "extra_virgin_threshold = \<lparr>grade = EXTRA_VIRGIN, max_acidity = 0.8, max_peroxide_value = 20,
     max_k232 = 2.5, max_k270 = 0.22, min_flavor_score = 80, min_aroma_score = 80\<rparr>"

definition only_delta_k :: QualityMetrics where
  "only_delta_k = no_metrics\<lparr>delta_k := Some 0.01\<rparr>"

definition only_flavor :: "real \<Rightarrow> QualityMetrics" where
  "only_flavor f = no_metrics\<lparr>flavor_score := Some f\<rparr>"

definition mixed_metrics :: QualityMetrics where
  "mixed_metrics = no_metrics\<lparr>acidity := Some 1.2, peroxide_value := Some 15,
     flavor_score := Some 70, aroma_score := Some 100\<rparr>"

text \<open>
  The specification's column pair, and a table of seven columns: a pair with a missing
  intensity, a pair with a text that is no number, a pair with one complete row, and a
  last column without a partner.
\<close>

definition example_table :: DataFrame where
  "example_table =
     [(''N0_EX_350.00'', [Some (Num 300), Some (Num 310), Some (Num 320)]),
      (''Intensity'', [Some (Num 1.0), Some (Num 2.0), None])]"

definition mixed_table :: DataFrame where
  "mixed_table =
     [(''N0_EX_350.00'', [Some (Num 300), Some (Num 310), Some (Num 320)]),
      (''I0'', [Some (Num 1.0), Some (Num 2.0), None]),
      (''N1_EX_360.00'', [Some (Str ''300''), Some (Str ''n/a''), None]),
      (''I1'', [Some (Num 5), Some (Num 6), Some (Num 7)]),
      (''N2'', [None, Some (Num 400), None]),
      (''I2'', [None, Some (Num 9), Some (Num 8)]),
      (''N3'', [Some (Num 1), Some (Num 2), Some (Num 3)])]"

section \<open>Scoring: the sub-scores and their mean\<close>

lemma sub_score_acidity:
  "(if a \<le> 0.8 then xs @ [100 - (a / 0.8) * 20] else xs @ [max 0 (80 - (a - 0.8) * 50)])
     = xs @ [piecewise_sub_score 0.8 50 (a::real)]"
  by (simp add: piecewise_sub_score_def interpolate_def algebra_simps)

lemma sub_score_peroxide:
  "(if p \<le> 20 then xs @ [100 - (p / 20) * 20] else xs @ [max 0 (80 - (p - 20) * 2)])
     = xs @ [piecewise_sub_score 20 2 (p::real)]"
  by (simp add: piecewise_sub_score_def interpolate_def algebra_simps)

lemma sub_score_k232:
  "(if k \<le> 2.5 then xs @ [100 - (k / 2.5) * 20] else xs @ [max 0 (80 - (k - 2.5) * 20)])
     = xs @ [piecewise_sub_score 2.5 20 (k::real)]"
  by (simp add: piecewise_sub_score_def interpolate_def algebra_simps)

lemma sub_score_k270:
  "(if k \<le> 0.22 then xs @ [100 - (k / 0.22) * 20] else xs @ [max 0 (80 - (k - 0.22) * 200)])
     = xs @ [piecewise_sub_score 0.22 200 (k::real)]"
  by (simp add: piecewise_sub_score_def interpolate_def algebra_simps)

lemma calculate_overall_score_mean:
  "calculate_overall_score m = arithmetic_mean (present_sub_scores m)"
  unfolding calculate_overall_score_def Let_def sub_score_acidity sub_score_peroxide
    sub_score_k232 sub_score_k270
  by (simp add: arithmetic_mean_def present_sub_scores_def present_def split: option.splits)

lemma piecewise_sub_score_bounds:
  assumes "0 < t" "0 \<le> rate"
  shows "0 \<le> piecewise_sub_score t rate v"
    and "0 \<le> v \<Longrightarrow> piecewise_sub_score t rate v \<le> 100"
proof -
  show "0 \<le> piecewise_sub_score t rate v"
  proof (cases "v \<le> t")
    case True
    then have "v / t \<le> 1" using assms by (simp add: divide_le_eq)
    then show ?thesis using True by (simp add: piecewise_sub_score_def interpolate_def)
  next
    case False
    then show ?thesis by (simp add: piecewise_sub_score_def)
  qed
  show "piecewise_sub_score t rate v \<le> 100" if "0 \<le> v"
  proof (cases "v \<le> t")
    case True
    have "0 \<le> v / t" using assms that by simp
    then show ?thesis using True by (simp add: piecewise_sub_score_def interpolate_def)
  next
    case False
    then have "0 \<le> rate * (v - t)" using assms by simp
    then show ?thesis using False by (simp add: piecewise_sub_score_def)
  qed
qed

lemma arithmetic_mean_bounds:
  assumes "list_all (\<lambda>x. 0 \<le> x \<and> x \<le> 100) xs"
  shows "0 \<le> arithmetic_mean xs \<and> arithmetic_mean xs \<le> 100"
proof (cases "xs = []")
  case True
  then show ?thesis by (simp add: arithmetic_mean_def)
next
  case False
  from assms have "0 \<le> sum_list xs \<and> sum_list xs \<le> 100 * real (length xs)"
    by (induction xs) (auto simp: algebra_simps)
  moreover have "0 < real (length xs)" using False by simp
  ultimately show ?thesis using False
    by (simp add: arithmetic_mean_def divide_le_eq)
qed

text \<open>
  C1, as stated: the example metrics score at least 90 and grade as extra virgin. The code
  gives the sub-scores 90, 90, 84 and 1000/11, whose mean is below 90.
\<close>

theorem example_metrics_not_extra_virgin:
  "\<not> (calculate_overall_score spec_example_metrics \<ge> 90
      \<and> determine_quality_grade spec_example_metrics = EXTRA_VIRGIN)"
  by (simp add: spec_example_metrics_def no_metrics_def calculate_overall_score_def
      determine_quality_grade_def)

text \<open>
  C1, amended: for the example metrics \<open>calculate_overall_score\<close> returns 976/11 (about
  88.73), which lies in [80, 90), and \<open>determine_quality_grade\<close> returns the virgin grade.
\<close>

theorem example_metrics_virgin:
  "calculate_overall_score spec_example_metrics = 976 / 11
   \<and> 80 \<le> calculate_overall_score spec_example_metrics
   \<and> calculate_overall_score spec_example_metrics < 90
   \<and> determine_quality_grade spec_example_metrics = VIRGIN"
  by (simp add: spec_example_metrics_def no_metrics_def calculate_overall_score_def
      determine_quality_grade_def)

text \<open>
  C3: the overall score is the arithmetic mean of the sub-scores of the present indicators.
  Acidity, peroxide value, K232 and K270 get the piecewise-linear sub-score with thresholds
  0.8, 20, 2.5, 0.22 and rates 50, 2, 20, 200: it is 100 at value 0 and 80 at the threshold,
  and never negative (acidity 5.0 alone scores 0). Flavor and aroma are their own
  sub-scores. With none of the six indicators present the score is 0.
\<close>

theorem overall_score_is_mean_of_sub_scores:
  "calculate_overall_score m = arithmetic_mean (present_sub_scores m)
   \<and> piecewise_sub_score 0.8 50 0 = 100 \<and> piecewise_sub_score 0.8 50 0.8 = 80
   \<and> piecewise_sub_score 20 2 0 = 100 \<and> piecewise_sub_score 20 2 20 = 80
   \<and> piecewise_sub_score 2.5 20 0 = 100 \<and> piecewise_sub_score 2.5 20 2.5 = 80
   \<and> piecewise_sub_score 0.22 200 0 = 100 \<and> piecewise_sub_score 0.22 200 0.22 = 80
   \<and> 0 \<le> piecewise_sub_score 0.8 50 v \<and> 0 \<le> piecewise_sub_score 20 2 v
   \<and> 0 \<le> piecewise_sub_score 2.5 20 v \<and> 0 \<le> piecewise_sub_score 0.22 200 v
   \<and> calculate_overall_score (no_metrics\<lparr>acidity := Some 5.0\<rparr>) = 0
   \<and> (acidity m = None \<and> peroxide_value m = None \<and> k232 m = None \<and> k270 m = None
        \<and> flavor_score m = None \<and> aroma_score m = None
      \<longrightarrow> calculate_overall_score m = 0)"
proof -
  have "piecewise_sub_score 0.8 50 0 = 100 \<and> piecewise_sub_score 0.8 50 0.8 = 80
   \<and> piecewise_sub_score 20 2 0 = 100 \<and> piecewise_sub_score 20 2 20 = 80
   \<and> piecewise_sub_score 2.5 20 0 = 100 \<and> piecewise_sub_score 2.5 20 2.5 = 80
   \<and> piecewise_sub_score 0.22 200 0 = 100 \<and> piecewise_sub_score 0.22 200 0.22 = 80"
    by (simp add: piecewise_sub_score_def interpolate_def)
  moreover have "calculate_overall_score (no_metrics\<lparr>acidity := Some 5.0\<rparr>) = 0"
    by (simp add: no_metrics_def calculate_overall_score_def)
  moreover have "acidity m = None \<and> peroxide_value m = None \<and> k232 m = None \<and> k270 m = None
        \<and> flavor_score m = None \<and> aroma_score m = None
      \<longrightarrow> calculate_overall_score m = 0"
    by (simp add: calculate_overall_score_def)
  ultimately show ?thesis
    using calculate_overall_score_mean [of m] piecewise_sub_score_bounds(1) [of _ _ v]
    by simp
qed

theorem overall_score_is_mean_of_sub_scores_witness:
  "calculate_overall_score mixed_metrics
     = arithmetic_mean [piecewise_sub_score 0.8 50 1.2, piecewise_sub_score 20 2 15, 70, 100]
   \<and> calculate_overall_score mixed_metrics = 315 / 4
   \<and> calculate_overall_score only_delta_k = 0"
proof -
  have none: "acidity only_delta_k = None \<and> peroxide_value only_delta_k = None
      \<and> k232 only_delta_k = None \<and> k270 only_delta_k = None
      \<and> flavor_score only_delta_k = None \<and> aroma_score only_delta_k = None"
    by (simp add: only_delta_k_def no_metrics_def)
  have subs: "present_sub_scores mixed_metrics
      = [piecewise_sub_score 0.8 50 1.2, piecewise_sub_score 20 2 15, 70, 100]"
    by (simp add: present_sub_scores_def present_def mixed_metrics_def no_metrics_def)
  have val: "arithmetic_mean [piecewise_sub_score 0.8 50 1.2, piecewise_sub_score 20 2 15, 70, 100]
      = 315 / 4"
    by (simp add: arithmetic_mean_def piecewise_sub_score_def interpolate_def)
  show ?thesis
    using overall_score_is_mean_of_sub_scores [of mixed_metrics 0]
      overall_score_is_mean_of_sub_scores [of only_delta_k 0] none subs val
    by simp
qed

text \<open>
  C4: the grade is extra virgin for a score of at least 90, virgin from 80 up to 90,
  lampante from 60 up to 80 and refined below 60; it is never the unknown grade.
\<close>

theorem grade_by_score_thresholds:
  "(calculate_overall_score m \<ge> 90 \<longrightarrow> determine_quality_grade m = EXTRA_VIRGIN)
   \<and> (calculate_overall_score m \<ge> 80 \<and> calculate_overall_score m < 90
        \<longrightarrow> determine_quality_grade m = VIRGIN)
   \<and> (calculate_overall_score m \<ge> 60 \<and> calculate_overall_score m < 80
        \<longrightarrow> determine_quality_grade m = LAMPANTE)
   \<and> (calculate_overall_score m < 60 \<longrightarrow> determine_quality_grade m = REFINED)
   \<and> determine_quality_grade m \<noteq> UNKNOWN"
  by (simp add: determine_quality_grade_def Let_def)

theorem grade_by_score_thresholds_witness:
  "calculate_overall_score (only_flavor 95) \<ge> 90
   \<and> determine_quality_grade (only_flavor 95) = EXTRA_VIRGIN
   \<and> calculate_overall_score (only_flavor 85) \<ge> 80 \<and> calculate_overall_score (only_flavor 85) < 90
   \<and> determine_quality_grade (only_flavor 85) = VIRGIN
   \<and> calculate_overall_score (only_flavor 60) \<ge> 60 \<and> calculate_overall_score (only_flavor 60) < 80
   \<and> determine_quality_grade (only_flavor 60) = LAMPANTE
   \<and> calculate_overall_score (only_flavor 10) < 60
   \<and> determine_quality_grade (only_flavor 10) = REFINED"
proof -
  have score: "calculate_overall_score (only_flavor f) = f" for f
    by (simp add: only_flavor_def no_metrics_def calculate_overall_score_def)
  show ?thesis
    using grade_by_score_thresholds [of "only_flavor 95"]
      grade_by_score_thresholds [of "only_flavor 85"]
      grade_by_score_thresholds [of "only_flavor 60"]
      grade_by_score_thresholds [of "only_flavor 10"]
    by (simp add: score)
qed

text \<open>
  C10: when every present chemical indicator is non-negative and every present sensory
  score lies in [0, 100], the overall score lies in [0, 100].
\<close>

theorem overall_score_in_range:
  assumes "metrics_in_range m"
  shows "0 \<le> calculate_overall_score m \<and> calculate_overall_score m \<le> 100"
proof -
  have chem: "list_all (\<lambda>x. 0 \<le> x \<and> x \<le> 100) (present (piecewise_sub_score t rate) x)"
    if "0 < t" "0 \<le> rate" "nonneg_if_present x" for t rate x
    using that piecewise_sub_score_bounds [of t rate]
    by (cases x) (simp_all add: present_def nonneg_if_present_def)
  have sens: "list_all (\<lambda>x. 0 \<le> x \<and> x \<le> 100) (present (\<lambda>v. v) x)"
    if "percent_if_present x" for x
    using that by (cases x) (simp_all add: present_def percent_if_present_def)
  from assms have "list_all (\<lambda>x. 0 \<le> x \<and> x \<le> 100) (present_sub_scores m)"
    unfolding metrics_in_range_def present_sub_scores_def list_all_append
    by (intro conjI chem sens) simp_all
  then show ?thesis
    unfolding calculate_overall_score_mean by (rule arithmetic_mean_bounds)
qed

theorem overall_score_in_range_witness:
  "metrics_in_range mixed_metrics
   \<and> 0 \<le> calculate_overall_score mixed_metrics \<and> calculate_overall_score mixed_metrics \<le> 100"
proof -
  have h: "metrics_in_range mixed_metrics"
    by (simp add: metrics_in_range_def mixed_metrics_def no_metrics_def
        nonneg_if_present_def percent_if_present_def)
  show ?thesis using h overall_score_in_range [OF h] by simp
qed

section \<open>Compliance\<close>

text \<open>
  C2, as stated: every present indicator, \<open>delta_k\<close> among them, has an entry. With only
  \<open>delta_k\<close> present the code returns the empty mapping.
\<close>

theorem compliance_skips_delta_k:
  "delta_k only_delta_k = Some 0.01
   \<and> check_compliance extra_virgin_threshold only_delta_k = Map.empty"
  by (simp add: only_delta_k_def no_metrics_def check_compliance_def)

text \<open>
  C2, amended: the mapping has exactly one entry for each of acidity, peroxide_value, k232,
  k270, flavor and aroma that is present, holding the comparison with the threshold's
  bound (at most the maximum, or at least the minimum for the two sensory scores), no
  entry for an absent one, and never an entry for \<open>delta_k\<close>.
\<close>

theorem compliance_entries:
  "dom (check_compliance th m) =
     key_if_present ''acidity'' (acidity m) \<union> key_if_present ''peroxide_value'' (peroxide_value m)
     \<union> key_if_present ''k232'' (k232 m) \<union> key_if_present ''k270'' (k270 m)
     \<union> key_if_present ''flavor'' (flavor_score m) \<union> key_if_present ''aroma'' (aroma_score m)
   \<and> check_compliance th m ''acidity'' = map_option (\<lambda>a. a \<le> max_acidity th) (acidity m)
   \<and> check_compliance th m ''peroxide_value''
       = map_option (\<lambda>p. p \<le> max_peroxide_value th) (peroxide_value m)
   \<and> check_compliance th m ''k232'' = map_option (\<lambda>k. k \<le> max_k232 th) (k232 m)
   \<and> check_compliance th m ''k270'' = map_option (\<lambda>k. k \<le> max_k270 th) (k270 m)
   \<and> check_compliance th m ''flavor'' = map_option (\<lambda>f. f \<ge> min_flavor_score th) (flavor_score m)
   \<and> check_compliance th m ''aroma'' = map_option (\<lambda>r. r \<ge> min_aroma_score th) (aroma_score m)
   \<and> ''delta_k'' \<notin> dom (check_compliance th m)"
proof -
  have d: "dom (check_compliance th m) =
     key_if_present ''acidity'' (acidity m) \<union> key_if_present ''peroxide_value'' (peroxide_value m)
     \<union> key_if_present ''k232'' (k232 m) \<union> key_if_present ''k270'' (k270 m)
     \<union> key_if_present ''flavor'' (flavor_score m) \<union> key_if_present ''aroma'' (aroma_score m)"
    by (auto simp: check_compliance_def Let_def key_if_present_def split: option.splits)
  have "''delta_k'' \<notin> dom (check_compliance th m)"
    unfolding d by (simp add: key_if_present_def split: option.splits)
  moreover have "check_compliance th m ''acidity'' = map_option (\<lambda>a. a \<le> max_acidity th) (acidity m)"
    by (simp add: check_compliance_def Let_def split: option.splits)
  moreover have "check_compliance th m ''peroxide_value''
       = map_option (\<lambda>p. p \<le> max_peroxide_value th) (peroxide_value m)"
    by (simp add: check_compliance_def Let_def split: option.splits)
  moreover have "check_compliance th m ''k232'' = map_option (\<lambda>k. k \<le> max_k232 th) (k232 m)"
    by (simp add: check_compliance_def Let_def split: option.splits)
  moreover have "check_compliance th m ''k270'' = map_option (\<lambda>k. k \<le> max_k270 th) (k270 m)"
    by (simp add: check_compliance_def Let_def split: option.splits)
  moreover have "check_compliance th m ''flavor''
       = map_option (\<lambda>f. f \<ge> min_flavor_score th) (flavor_score m)"
    by (simp add: check_compliance_def Let_def split: option.splits)
  moreover have "check_compliance th m ''aroma''
       = map_option (\<lambda>r. r \<ge> min_aroma_score th) (aroma_score m)"
    by (simp add: check_compliance_def Let_def split: option.splits)
  ultimately show ?thesis using d by blast
qed

section \<open>Constructing spectral data\<close>

text \<open>
  C8: the constructor succeeds for sequences of equal non-zero length, raises exactly when
  the lengths differ or both sequences are empty, and every constructed value has
  \<open>len(wavelengths) == len(intensities) > 0\<close>.
\<close>

theorem spectral_data_construction:
  "(length w = length i \<and> 0 < length w \<longrightarrow>
      new_SpectralData w i t ex em mc
        = Inr \<lparr>wavelengths = w, intensities = i, spectroscopy_type = t,
              excitation_wavelength = ex, emission_wavelength = em,
              measurement_conditions = mc\<rparr>)
   \<and> ((\<exists>e. new_SpectralData w i t ex em mc = Inl e)
        \<longleftrightarrow> (length w \<noteq> length i \<or> (w = [] \<and> i = [])))
   \<and> (new_SpectralData w i t ex em mc = Inr sd \<longrightarrow>
        length (wavelengths sd) = length (intensities sd) \<and> 0 < length (wavelengths sd))"
  by (auto simp: new_SpectralData_def post_init_def)

theorem spectral_data_construction_witness:
  "length [300, 310 :: real] = length [1, 2 :: real] \<and> 0 < length [300, 310 :: real]
   \<and> (\<exists>sd. new_SpectralData [300, 310] [1, 2] FLUORESCENCE (Some 300) None None = Inr sd
        \<and> length (wavelengths sd) = length (intensities sd) \<and> 0 < length (wavelengths sd))
   \<and> (\<exists>e. new_SpectralData [300, 310] [1] ABSORPTION None None None = Inl e)
   \<and> (\<exists>e. new_SpectralData [] [] ABSORPTION None None None = Inl e)"
  using spectral_data_construction [of "[300, 310]" "[1, 2]" FLUORESCENCE "Some 300" None None]
    spectral_data_construction [of "[300, 310]" "[1]" ABSORPTION None None None]
    spectral_data_construction [of "[]" "[]" ABSORPTION None None None]
  by simp

section \<open>Substrings and splitting\<close>

text \<open>\<open>contains\<close> is occurrence as a contiguous part.\<close>

lemma contains_iff_occurs: "contains sub s \<longleftrightarrow> (\<exists>p q. s = p @ sub @ q)"
proof (induction s)
  case Nil
  then show ?case by auto
next
  case (Cons c cs)
  show ?case
  proof
    assume "contains sub (c # cs)"
    then consider "prefix sub (c # cs)" | "contains sub cs" by auto
    then show "\<exists>p q. c # cs = p @ sub @ q"
    proof cases
      case 1
      then obtain q where "c # cs = sub @ q" by (auto simp: prefix_def)
      then have "c # cs = [] @ sub @ q" by simp
      then show ?thesis by blast
    next
      case 2
      then obtain p q where "cs = p @ sub @ q" using Cons.IH by blast
      then have "c # cs = (c # p) @ sub @ q" by simp
      then show ?thesis by blast
    qed
  next
    assume "\<exists>p q. c # cs = p @ sub @ q"
    then obtain p q where pq: "c # cs = p @ sub @ q" by blast
    show "contains sub (c # cs)"
    proof (cases p)
      case Nil
      then have "prefix sub (c # cs)" using pq by (simp add: prefix_def)
      then show ?thesis by simp
    next
      case (Cons a p')
      then have "cs = p' @ sub @ q" using pq by simp
      then have "contains sub cs" using Cons.IH by blast
      then show ?thesis by simp
    qed
  qed
qed

lemma contains_iff_after_first: "contains sep s \<longleftrightarrow> after_first sep s \<noteq> None"
  by (induction s) auto

lemma before_first_no_marker: "\<not> contains sep s \<Longrightarrow> before_first sep s = s"
  by (induction s) auto

text \<open>The first part of a split ends at the first separator; the rest is split in turn.\<close>

lemma split_from_first:
  "sep \<noteq> [] \<Longrightarrow>
   split_from sep cur s =
     (cur @ before_first sep s)
     # (case after_first sep s of None \<Rightarrow> [] | Some r \<Rightarrow> split_from sep [] r)"
  by (induction sep cur s rule: split_from.induct) auto

lemma split_from_second:
  assumes "sep \<noteq> []" "after_first sep s = Some r"
  shows "length (split_from sep cur s) > 1 \<and> split_from sep cur s ! 1 = before_first sep r"
proof -
  have "split_from sep cur s = (cur @ before_first sep s) # split_from sep [] r"
    using assms split_from_first [of sep cur s] by simp
  moreover have "split_from sep [] r = before_first sep r
      # (case after_first sep r of None \<Rightarrow> [] | Some q \<Rightarrow> split_from sep [] q)"
    using assms(1) split_from_first [of sep "[]" r] by simp
  ultimately show ?thesis by simp
qed

section \<open>Excitation wavelength from a header\<close>

lemma extract_excitation_wavelength_field:
  "extract_excitation_wavelength to_float h =
     (case after_first ''EX_'' h of
        None \<Rightarrow> 300
      | Some r \<Rightarrow> (case to_float (before_first ''EX_'' r) of None \<Rightarrow> 300 | Some v \<Rightarrow> v))"
proof (cases "after_first ''EX_'' h")
  case None
  then show ?thesis
    by (simp add: extract_excitation_wavelength_def contains_iff_after_first)
next
  case (Some r)
  then have "length (split_from ''EX_'' [] h) > 1
      \<and> split_from ''EX_'' [] h ! 1 = before_first ''EX_'' r"
    by (intro split_from_second) simp_all
  then show ?thesis using Some
    by (simp add: extract_excitation_wavelength_def contains_iff_after_first split_def)
qed

text \<open>
  C6, as stated: with the marker present, the result is the number parsed from the text
  after it, or 300.0 when that text does not parse. In the header \<open>EX_1EX_2\<close> the text after
  the marker is \<open>1EX_2\<close>, which is no float, yet the code returns 1.0: it parses the part
  between the first marker and the next one.
\<close>

theorem excitation_two_markers:
  "after_first ''EX_'' ''EX_1EX_2'' = Some ''1EX_2''
   \<and> float_decimal ''1EX_2'' = None
   \<and> extract_excitation_wavelength float_decimal ''EX_1EX_2'' = 1"
  by (simp add: extract_excitation_wavelength_def split_def float_decimal_def
      unsigned_decimal_def digit_value_def)

text \<open>
  C6, amended: the result is the number parsed from the text between the first \<open>EX_\<close>
  marker and the next \<open>EX_\<close> marker (or the end of the header), and 300.0 when the marker
  is absent or that text does not parse. For a header with a single marker this text is
  all that follows the marker, as in \<open>N0_EX_350.00\<close>, which yields 350.0.
\<close>

theorem excitation_from_marker_field:
  "extract_excitation_wavelength to_float h =
     (case after_first ''EX_'' h of
        None \<Rightarrow> 300
      | Some r \<Rightarrow> (case to_float (before_first ''EX_'' r) of None \<Rightarrow> 300 | Some v \<Rightarrow> v))
   \<and> (after_first ''EX_'' h = Some r \<and> \<not> contains ''EX_'' r \<and> to_float r = Some v \<longrightarrow>
        extract_excitation_wavelength to_float h = v)
   \<and> (after_first ''EX_'' h = Some r \<and> \<not> contains ''EX_'' r \<and> to_float r = None \<longrightarrow>
        extract_excitation_wavelength to_float h = 300)
   \<and> (\<not> contains ''EX_'' h \<longrightarrow> extract_excitation_wavelength to_float h = 300)"
  by (auto simp: extract_excitation_wavelength_field before_first_no_marker
      contains_iff_after_first split: option.splits)

theorem excitation_from_marker_field_witness:
  "after_first ''EX_'' ''N0_EX_350.00'' = Some ''350.00''
   \<and> \<not> contains ''EX_'' ''350.00''
   \<and> float_decimal ''350.00'' = Some 350
   \<and> extract_excitation_wavelength float_decimal ''N0_EX_350.00'' = 350
   \<and> after_first ''EX_'' ''N0_EX_abc'' = Some ''abc''
   \<and> \<not> contains ''EX_'' ''abc''
   \<and> float_decimal ''abc'' = None
   \<and> extract_excitation_wavelength float_decimal ''N0_EX_abc'' = 300
   \<and> \<not> contains ''EX_'' ''N0_350.00''
   \<and> extract_excitation_wavelength float_decimal ''N0_350.00'' = 300"
proof -
  have a: "after_first ''EX_'' ''N0_EX_350.00'' = Some ''350.00'' \<and> \<not> contains ''EX_'' ''350.00''
      \<and> float_decimal ''350.00'' = Some 350"
    by (simp add: float_decimal_def unsigned_decimal_def digit_value_def)
  have b: "after_first ''EX_'' ''N0_EX_abc'' = Some ''abc'' \<and> \<not> contains ''EX_'' ''abc''
      \<and> float_decimal ''abc'' = None"
    by (simp add: float_decimal_def unsigned_decimal_def digit_value_def)
  have c: "\<not> contains ''EX_'' ''N0_350.00''" by simp
  have r1: "extract_excitation_wavelength float_decimal ''N0_EX_350.00'' = 350"
    using a excitation_from_marker_field [of float_decimal "''N0_EX_350.00''" "''350.00''" 350]
    by blast
  have r2: "extract_excitation_wavelength float_decimal ''N0_EX_abc'' = 300"
    using b excitation_from_marker_field [of float_decimal "''N0_EX_abc''" "''abc''" 0]
    by blast
  have r3: "extract_excitation_wavelength float_decimal ''N0_350.00'' = 300"
    using c excitation_from_marker_field [of float_decimal "''N0_350.00''" "[]" 0]
    by blast
  show ?thesis using a b c r1 r2 r3 by blast
qed

section \<open>Aging step from a file name\<close>

lemma AS_tokens: "AS_token 0 = ''AS0''" "AS_token 1 = ''AS1''" "AS_token 2 = ''AS2''"
  "AS_token 3 = ''AS3''" "AS_token 4 = ''AS4''" "AS_token 5 = ''AS5''" "AS_token 6 = ''AS6''"
  "AS_token 7 = ''AS7''" "AS_token 8 = ''AS8''" "AS_token 9 = ''AS9''"
  "AS_token (Suc 0) = ''AS1''"
  by (simp_all add: AS_token_def)

lemma digits_upt: "[0..<10] = [0, 1, 2, 3, 4, 5, 6, 7, 8, 9::nat]"
  by (simp add: upt_rec)

text \<open>
  C7, as stated: a name containing the token \<open>AS3\<close> maps to step 3. The name
  \<open>AS3_AS1.csv\<close> contains it, and the code returns step 1: the tokens are tried in the
  order \<open>AS0\<close>, \<open>AS1\<close>, ..., whatever their position in the name.
\<close>

theorem aging_step_two_tokens:
  "contains (AS_token 3) ''AS3_AS1.csv''
   \<and> extract_aging_step ''AS3_AS1.csv'' = STEP_1
   \<and> extract_aging_step ''AS3_AS1.csv'' \<noteq> step_of_digit 3"
  by (simp add: AS_token_def step_of_digit_def extract_aging_step_def)

text \<open>
  C7, amended: the result is the step of the smallest digit \<open>d\<close> in 0..9 whose token
  \<open>ASd\<close> occurs in the name, hence step \<open>d\<close> when \<open>ASd\<close> is the only such token in the name
  (\<open>2023_AS3_sample.csv\<close> maps to step 3), and step 0 when no such token occurs.
\<close>

theorem aging_step_smallest_digit:
  "extract_aging_step name =
     (case find (\<lambda>d. contains (AS_token d) name) [0..<10] of
        None \<Rightarrow> STEP_0 | Some d \<Rightarrow> step_of_digit d)
   \<and> (filter (\<lambda>d. contains (AS_token d) name) [0..<10] = [d] \<longrightarrow>
        extract_aging_step name = step_of_digit d)
   \<and> (filter (\<lambda>d. contains (AS_token d) name) [0..<10] = [] \<longrightarrow>
        extract_aging_step name = STEP_0)"
proof -
  have eq: "extract_aging_step name =
     (case find (\<lambda>d. contains (AS_token d) name) [0..<10] of
        None \<Rightarrow> STEP_0 | Some d \<Rightarrow> step_of_digit d)"
    unfolding digits_upt by (simp add: extract_aging_step_def AS_tokens step_of_digit_def)
  have one: "find P xs = Some d" if "filter P xs = [d]" for P and xs :: "nat list"
    using that by (induction xs) (auto split: if_splits)
  have none: "find P xs = None" if "filter P xs = []" for P and xs :: "nat list"
    using that by (induction xs) (auto split: if_splits)
  show ?thesis using eq one none by (metis option.simps(4,5))
qed

theorem aging_step_smallest_digit_witness:
  "filter (\<lambda>d. contains (AS_token d) ''2023_AS3_sample.csv'') [0..<10] = [3]
   \<and> extract_aging_step ''2023_AS3_sample.csv'' = STEP_3
   \<and> filter (\<lambda>d. contains (AS_token d) ''2023_sample.csv'') [0..<10] = []
   \<and> extract_aging_step ''2023_sample.csv'' = STEP_0
   \<and> extract_aging_step ''AS3_AS1.csv'' = STEP_1"
proof -
  have a: "filter (\<lambda>d. contains (AS_token d) ''2023_AS3_sample.csv'') [0..<10] = [3]"
    unfolding digits_upt by (simp add: AS_tokens)
  have b: "filter (\<lambda>d. contains (AS_token d) ''2023_sample.csv'') [0..<10] = []"
    unfolding digits_upt by (simp add: AS_tokens)
  have c: "find (\<lambda>d. contains (AS_token d) ''AS3_AS1.csv'') [0..<10] = Some 1"
    unfolding digits_upt by (simp add: AS_tokens)
  note t1 = aging_step_smallest_digit [of "''2023_AS3_sample.csv''" 3]
  note t2 = aging_step_smallest_digit [of "''2023_sample.csv''" 0]
  note t3 = aging_step_smallest_digit [of "''AS3_AS1.csv''" 0]
  have r1: "extract_aging_step ''2023_AS3_sample.csv'' = step_of_digit 3"
    using t1 a by blast
  have r2: "extract_aging_step ''2023_sample.csv'' = STEP_0"
    using t2 b by blast
  have r3: "extract_aging_step ''AS3_AS1.csv'' = step_of_digit 1"
    using t3 unfolding c by simp
  show ?thesis
    using a b r1 r2 r3 by (simp only: step_of_digit_def) simp
qed

section \<open>Strategy selection\<close>

text \<open>
  C9, as stated: a path containing \<open>Absorption\<close> selects the absorption strategy. A path
  that contains \<open>Fluorescence\<close> as well selects the fluorescence strategy, since that
  substring is tested first.
\<close>

theorem factory_both_substrings:
  "contains ''Absorption'' ''Fluorescence_vs_Absorption.csv''
   \<and> create_strategy_from_file strategies_initial ''Fluorescence_vs_Absorption.csv''
       = Inr FluorescenceStrategy"
  by (simp add: create_strategy_from_file_def create_strategy_def strategies_initial_def)

text \<open>
  C9, amended: with the registry as the class defines it, selection by type returns the
  fluorescence strategy for fluorescence, the absorption strategy for absorption and raises
  for every other type; selection by path returns the fluorescence strategy when the path
  contains \<open>Fluorescence\<close>, the absorption strategy when it contains \<open>Absorption\<close> and not
  \<open>Fluorescence\<close>, and the fluorescence strategy when it contains neither.
\<close>

theorem factory_selection:
  "create_strategy strategies_initial FLUORESCENCE = Inr FluorescenceStrategy
   \<and> create_strategy strategies_initial ABSORPTION = Inr AbsorptionStrategy
   \<and> (t \<noteq> FLUORESCENCE \<and> t \<noteq> ABSORPTION \<longrightarrow>
        create_strategy strategies_initial t = Inl (ValueError ''Unsupported spectroscopy type''))
   \<and> (contains ''Fluorescence'' p \<longrightarrow>
        create_strategy_from_file strategies_initial p = Inr FluorescenceStrategy)
   \<and> (contains ''Absorption'' p \<and> \<not> contains ''Fluorescence'' p \<longrightarrow>
        create_strategy_from_file strategies_initial p = Inr AbsorptionStrategy)
   \<and> (\<not> contains ''Fluorescence'' p \<and> \<not> contains ''Absorption'' p \<longrightarrow>
        create_strategy_from_file strategies_initial p = Inr FluorescenceStrategy)"
  by (cases t) (simp_all add: create_strategy_from_file_def create_strategy_def strategies_initial_def)

theorem factory_selection_witness:
  "create_strategy strategies_initial RAMAN = Inl (ValueError ''Unsupported spectroscopy type'')
   \<and> contains ''Fluorescence'' ''data/Fluorescence/a.csv''
   \<and> create_strategy_from_file strategies_initial ''data/Fluorescence/a.csv'' = Inr FluorescenceStrategy
   \<and> contains ''Absorption'' ''data/Absorption/a.csv''
   \<and> \<not> contains ''Fluorescence'' ''data/Absorption/a.csv''
   \<and> create_strategy_from_file strategies_initial ''data/Absorption/a.csv'' = Inr AbsorptionStrategy
   \<and> \<not> contains ''Fluorescence'' ''data/a.csv'' \<and> \<not> contains ''Absorption'' ''data/a.csv''
   \<and> create_strategy_from_file strategies_initial ''data/a.csv'' = Inr FluorescenceStrategy"
proof -
  have a: "contains ''Fluorescence'' ''data/Fluorescence/a.csv''" by simp
  have b: "contains ''Absorption'' ''data/Absorption/a.csv''
      \<and> \<not> contains ''Fluorescence'' ''data/Absorption/a.csv''" by simp
  have c: "\<not> contains ''Fluorescence'' ''data/a.csv'' \<and> \<not> contains ''Absorption'' ''data/a.csv''"
    by simp
  show ?thesis
    using a b c factory_selection [of RAMAN "''data/Fluorescence/a.csv''"]
      factory_selection [of RAMAN "''data/Absorption/a.csv''"]
      factory_selection [of RAMAN "''data/a.csv''"]
    by simp
qed

section \<open>Loading the column pairs of a table\<close>

text \<open>The array conversion succeeds exactly when every value converts.\<close>

lemma astype_float_cases:
  "astype_float to_float xs =
     (if list_all (\<lambda>x. scalar_to_float to_float x \<noteq> None) xs
      then Inr (List.map_filter (scalar_to_float to_float) xs)
      else Inl (ValueError ''could not convert string to float''))"
  by (induction xs) (auto split: option.splits)

lemma length_map_filter_all:
  "list_all (\<lambda>x. f x \<noteq> None) xs \<Longrightarrow> length (List.map_filter f xs) = length xs"
  by (induction xs) (auto split: option.splits)

lemma pair_valid_iff:
  "pair_valid to_float df i \<longleftrightarrow>
     pair_rows df i \<noteq> []
     \<and> list_all (\<lambda>x. scalar_to_float to_float x \<noteq> None) (map fst (pair_rows df i))
     \<and> list_all (\<lambda>x. scalar_to_float to_float x \<noteq> None) (map snd (pair_rows df i))"
  by (auto simp: pair_valid_def list_all_iff)

lemma map_Some_map_filter:
  "list_all (\<lambda>x. f x \<noteq> None) xs \<Longrightarrow> map Some (List.map_filter f xs) = map f xs"
  by (induction xs) (auto split: option.splits)

text \<open>One round of the loop appends the pair's record when the pair is valid, and nothing otherwise.\<close>

lemma load_pair_in_range:
  assumes "i + 1 < length df"
  shows "load_pair to_float df i acc =
     acc @ (if pair_valid to_float df i then [pair_record to_float df i] else [])"
proof -
  define ws where "ws = List.map_filter (scalar_to_float to_float) (map fst (pair_rows df i))"
  define ys where "ys = List.map_filter (scalar_to_float to_float) (map snd (pair_rows df i))"
  show ?thesis
  proof (cases "list_all (\<lambda>x. scalar_to_float to_float x \<noteq> None) (map fst (pair_rows df i))
      \<and> list_all (\<lambda>x. scalar_to_float to_float x \<noteq> None) (map snd (pair_rows df i))")
    case False
    then show ?thesis using assms
      by (auto simp: load_pair_def extract_spectrum_def Let_def astype_float_cases pair_valid_iff
          pair_rows_def)
  next
    case True
    then have len: "length ws = length (pair_rows df i)" "length ys = length (pair_rows df i)"
      unfolding ws_def ys_def
      using length_map_filter_all [of "scalar_to_float to_float"] by fastforce+
    have ex: "extract_spectrum to_float df i = Inr (ws, ys)"
      using assms True
      by (simp add: extract_spectrum_def Let_def astype_float_cases pair_rows_def ws_def ys_def)
    have rec: "pair_record to_float df i =
        \<lparr>wavelengths = ws, intensities = ys, spectroscopy_type = FLUORESCENCE,
         excitation_wavelength = Some (extract_excitation_wavelength to_float (fst (df ! i))),
         emission_wavelength = None, measurement_conditions = None\<rparr>"
      by (simp add: pair_record_def ws_def ys_def)
    show ?thesis
    proof (cases "pair_rows df i = []")
      case True
      then show ?thesis using len
        by (simp add: load_pair_def ex pair_valid_iff)
    next
      case False
      then have "ws \<noteq> []" using len(1) by (metis length_0_conv)
      then show ?thesis using len True False
        by (simp add: load_pair_def ex rec pair_valid_iff new_SpectralData_def post_init_def)
    qed
  qed
qed

lemma pair_indices_from:
  "i + 1 < n \<Longrightarrow> even i \<Longrightarrow>
     filter (\<lambda>j. even j \<and> j + 1 < n) [i..<n] = i # filter (\<lambda>j. even j \<and> j + 1 < n) [i + 2..<n]"
  by (simp add: upt_conv_Cons)

lemma pair_indices_end:
  "\<not> i + 1 < n \<Longrightarrow> filter (\<lambda>j. even j \<and> j + 1 < n) [i..<n] = []"
  by (auto simp: filter_empty_conv)

text \<open>The loop from an even column \<open>i\<close> on, by induction along its own recursion.\<close>

lemma load_loop_pairs:
  "even i \<Longrightarrow>
   load_loop to_float df i acc =
     acc @ map (pair_record to_float df)
       (filter (pair_valid to_float df)
         (filter (\<lambda>j. even j \<and> j + 1 < length df) [i..<length df]))"
proof (induction to_float df i acc rule: load_loop.induct)
  case (1 to_float df i acc)
  show ?case
  proof (cases "i + 1 < length df")
    case True
    then have c: "int i < int (length df) - 1" by simp
    have "load_loop to_float df i acc
        = load_loop to_float df (i + 2) (load_pair to_float df i acc)"
      using c by (subst load_loop.simps) simp
    also have "\<dots> = load_pair to_float df i acc @ map (pair_record to_float df)
       (filter (pair_valid to_float df)
         (filter (\<lambda>j. even j \<and> j + 1 < length df) [i + 2..<length df]))"
      using "1.IH" [OF c] "1.prems" by simp
    finally have step: "load_loop to_float df i acc =
       load_pair to_float df i acc @ map (pair_record to_float df)
       (filter (pair_valid to_float df)
         (filter (\<lambda>j. even j \<and> j + 1 < length df) [i + 2..<length df]))" .
    show ?thesis
      unfolding step pair_indices_from [OF True "1.prems"] load_pair_in_range [OF True]
      by simp
  next
    case False
    then have c: "\<not> int i < int (length df) - 1" by simp
    have "load_loop to_float df i acc = acc"
      using c by (subst load_loop.simps) simp
    then show ?thesis unfolding pair_indices_end [OF False] by simp
  qed
qed

text \<open>
  C5: for every table, \<open>load_data\<close> returns one record per valid column pair (wavelengths
  at an even index \<open>i\<close>, intensities at \<open>i + 1\<close>), in increasing column order; a pair is
  valid when at least one row is left after dropping the rows with a missing value and
  every value left converts to a float. The arrays of a record are the rows of the pair
  without those in which either value is missing, each value converted to a float. The
  pair \<open>[300, 310, 320]\<close>, \<open>[1.0, 2.0, NaN]\<close> yields the arrays \<open>[300, 310]\<close> and \<open>[1, 2]\<close>. A
  file that cannot be read yields no record.
\<close>

theorem load_data_one_record_per_valid_pair:
  "load_data to_float (Inr df) =
     map (pair_record to_float df) (filter (pair_valid to_float df) (pair_indices df))
   \<and> (pair_valid to_float df i \<longrightarrow>
        map Some (wavelengths (pair_record to_float df i))
          = map (scalar_to_float to_float \<circ> fst) (pair_rows df i)
        \<and> map Some (intensities (pair_record to_float df i))
          = map (scalar_to_float to_float \<circ> snd) (pair_rows df i))
   \<and> map (\<lambda>(a, b). (Some a, Some b)) (valid_rows wcol icol)
       = filter (\<lambda>(w, i). w \<noteq> None \<and> i \<noteq> None) (zip wcol icol)
   \<and> extract_spectrum to_float example_table 0 = Inr ([300, 310], [1, 2])
   \<and> load_data to_float (Inl e) = []"
proof -
  have rows: "map (\<lambda>(a, b). (Some a, Some b)) (List.map_filter
       (\<lambda>(w, i). case w of None \<Rightarrow> None
                 | Some a \<Rightarrow> (case i of None \<Rightarrow> None | Some b \<Rightarrow> Some (a, b))) zs)
       = filter (\<lambda>(w, i). w \<noteq> None \<and> i \<noteq> None) zs" for zs :: "(cell \<times> cell) list"
    by (induction zs) (auto split: option.splits)
  have ex: "extract_spectrum to_float example_table 0 = Inr ([300, 310], [1, 2])"
    by (simp add: extract_spectrum_def example_table_def valid_rows_def)
  have arrays: "map Some (wavelengths (pair_record to_float df i))
          = map (scalar_to_float to_float \<circ> fst) (pair_rows df i)
        \<and> map Some (intensities (pair_record to_float df i))
          = map (scalar_to_float to_float \<circ> snd) (pair_rows df i)"
    if "pair_valid to_float df i"
    using that map_Some_map_filter [of "scalar_to_float to_float"]
    by (simp add: pair_valid_iff pair_record_def)
  have loop: "load_data to_float (Inr df) =
     map (pair_record to_float df) (filter (pair_valid to_float df) (pair_indices df))"
    using load_loop_pairs [of 0 to_float df "[]"] by (simp add: load_data_def pair_indices_def)
  have unread: "load_data to_float (Inl e) = []"
    by (simp add: load_data_def)
  show ?thesis
    using loop arrays rows [of "zip wcol icol"] ex unread
    unfolding valid_rows_def by blast
qed

theorem load_data_one_record_per_valid_pair_witness:
  "pair_indices mixed_table = [0, 2, 4]
   \<and> pair_valid float_decimal mixed_table 0
   \<and> \<not> pair_valid float_decimal mixed_table 2
   \<and> pair_valid float_decimal mixed_table 4
   \<and> load_data float_decimal (Inr mixed_table) =
       [\<lparr>wavelengths = [300, 310], intensities = [1, 2], spectroscopy_type = FLUORESCENCE,
         excitation_wavelength = Some 350, emission_wavelength = None,
         measurement_conditions = None\<rparr>,
        \<lparr>wavelengths = [400], intensities = [9], spectroscopy_type = FLUORESCENCE,
         excitation_wavelength = Some 300, emission_wavelength = None,
         measurement_conditions = None\<rparr>]
   \<and> map Some (wavelengths (pair_record float_decimal mixed_table 0)) = [Some 300, Some 310]
   \<and> map Some (intensities (pair_record float_decimal mixed_table 0)) = [Some 1, Some 2]"
proof -
  have idx: "pair_indices mixed_table = [0, 2, 4]"
    by (simp add: pair_indices_def mixed_table_def upt_rec)
  have v: "pair_valid float_decimal mixed_table 0 \<and> \<not> pair_valid float_decimal mixed_table 2
      \<and> pair_valid float_decimal mixed_table 4"
    by (simp add: pair_valid_def pair_rows_def valid_rows_def mixed_table_def float_decimal_def
        unsigned_decimal_def digit_value_def)
  have rows: "pair_rows mixed_table 0 = [(Num 300, Num 1), (Num 310, Num 2)]"
    by (simp add: pair_rows_def valid_rows_def mixed_table_def)
  have r0: "pair_record float_decimal mixed_table 0 =
       \<lparr>wavelengths = [300, 310], intensities = [1, 2], spectroscopy_type = FLUORESCENCE,
         excitation_wavelength = Some 350, emission_wavelength = None,
         measurement_conditions = None\<rparr>"
    by (simp add: pair_record_def pair_rows_def valid_rows_def mixed_table_def
        extract_excitation_wavelength_def split_def float_decimal_def unsigned_decimal_def
        digit_value_def)
  have r4: "pair_record float_decimal mixed_table 4 =
       \<lparr>wavelengths = [400], intensities = [9], spectroscopy_type = FLUORESCENCE,
         excitation_wavelength = Some 300, emission_wavelength = None,
         measurement_conditions = None\<rparr>"
    by (simp add: pair_record_def pair_rows_def valid_rows_def mixed_table_def
        extract_excitation_wavelength_def)
  note t = load_data_one_record_per_valid_pair [of float_decimal mixed_table 0 "[]" "[]" e
      for e]
  have l: "load_data float_decimal (Inr mixed_table) =
      map (pair_record float_decimal mixed_table)
        (filter (pair_valid float_decimal mixed_table) (pair_indices mixed_table))"
    using t by blast
  have w: "map Some (wavelengths (pair_record float_decimal mixed_table 0))
        = map (scalar_to_float float_decimal \<circ> fst) (pair_rows mixed_table 0)
      \<and> map Some (intensities (pair_record float_decimal mixed_table 0))
        = map (scalar_to_float float_decimal \<circ> snd) (pair_rows mixed_table 0)"
    using t v by blast
  show ?thesis
    using idx v w unfolding l rows by (simp add: r0 r4)
qed

end
